theory Spec2Isabelle
  imports Main "HOL-Library.Sublist"
begin

section \<open>The user-account backend of nest-demo-app\<close>

text \<open>
  A shallow embedding of \<^verbatim>\<open>UserService\<close> (user.service.ts), \<^verbatim>\<open>AuthService\<close>
  (auth.service.ts), the \<^verbatim>\<open>User\<close> schema (user.model.ts) and the handler
  \<^verbatim>\<open>UserController.getUserById\<close> (user.controller.ts).

  Every method is \<^verbatim>\<open>async\<close> and awaits each call before the next one, so a method
  is a function from the state before the call to its outcome and the state after it.
  An exception (a rejected promise) is the \<open>Inl\<close> of a sum; a \<^verbatim>\<open>try/catch\<close> is a case
  distinction on that sum. The state is the MongoDB collection of user documents, in
  insertion order, together with the list of mails handed to \<^verbatim>\<open>EmailService.sendEmail\<close>.
  \<^verbatim>\<open>Logger\<close> calls write to the console only and are left out.

  The libraries the services call (bcrypt, the ObjectId type of bson, the clock, the
  email service) are not part of the sources; what they compute is taken as a parameter,
  collected in the record \<open>env\<close>.
\<close>

subsection \<open>Exceptions\<close>

text \<open>
  The four Nest HTTP exceptions the services construct, and the errors the libraries
  throw: a MongoDB server error with its numeric \<^verbatim>\<open>code\<close>, Mongoose's \<^verbatim>\<open>CastError\<close> for
  a value that is no ObjectId, and a plain \<^verbatim>\<open>Error\<close>.
\<close>

datatype exn =
    BadRequestException string
  | NotFoundException string
  | InternalServerErrorException string
  | NotAcceptableException string
  | MongoServerError nat string
  | CastError string
  | Error string

text \<open>\<^verbatim>\<open>error.message\<close>\<close>

fun message :: "exn \<Rightarrow> string" where
  "message (BadRequestException m) = m"
| "message (NotFoundException m) = m"
| "message (InternalServerErrorException m) = m"
| "message (NotAcceptableException m) = m"
| "message (MongoServerError c m) = m"
| "message (CastError v) =
     ''Cast to ObjectId failed for value '' @ [CHR 0x22] @ v @ [CHR 0x22] @
     '' (type string) at path '' @ [CHR 0x22] @ ''_id'' @ [CHR 0x22] @
     '' for model '' @ [CHR 0x22] @ ''User'' @ [CHR 0x22]"
| "message (Error m) = m"

text \<open>\<^verbatim>\<open>error.code\<close>: only the server error carries a numeric one.\<close>

fun code :: "exn \<Rightarrow> nat option" where
  "code (MongoServerError c m) = Some c"
| "code e = None"

text \<open>\<^verbatim>\<open>error instanceof NotFoundException\<close>, \<^verbatim>\<open>error instanceof BadRequestException\<close>\<close>

fun instanceof_NotFoundException :: "exn \<Rightarrow> bool" where
  "instanceof_NotFoundException (NotFoundException m) = True"
| "instanceof_NotFoundException e = False"

fun instanceof_BadRequestException :: "exn \<Rightarrow> bool" where
  "instanceof_BadRequestException (BadRequestException m) = True"
| "instanceof_BadRequestException e = False"

subsection \<open>The data model (user.model.ts)\<close>

text \<open>
  An ObjectId is represented by its hexadecimal string, which is what
  \<^verbatim>\<open>_id.toString()\<close> returns.
\<close>

datatype objectid = ObjectId string

fun toString :: "objectid \<Rightarrow> string" where
  "toString (ObjectId h) = h"

text \<open>An element of \<^verbatim>\<open>files: object[]\<close>: an opaque bag of keys and values.\<close>

type_synonym fileData = "(string \<times> string) list"

text \<open>
  The \<^verbatim>\<open>User\<close> schema: every property is declared by a bare \<^verbatim>\<open>@Prop()\<close>, with the
  defaults \<^verbatim>\<open>files: []\<close>, \<^verbatim>\<open>isActive: false\<close> and \<^verbatim>\<open>createdAt: Date.now\<close>. The field
  \<open>oid\<close> is the document's \<^verbatim>\<open>_id\<close>.
\<close>

record user =
  oid :: objectid
  username :: string
  email :: string
  password :: string
  files :: "fileData list"
  isActive :: bool
  createdAt :: nat

text \<open>
  Modelled from the spec: \<^verbatim>\<open>CreateUserDto\<close> and \<^verbatim>\<open>UpdateUserDto\<close> (src/dto/user is not
  among the sources). The spec gives the signup input as
  \<^verbatim>\<open>{username, email, password, ...}\<close> and the update input as "partial fields". The
  services hand the object they receive to Mongoose as it is, and Mongoose keeps of it
  what is a path of the schema. So besides username, email and password a signup DTO may
  carry a value for \<^verbatim>\<open>_id\<close>, \<^verbatim>\<open>files\<close>, \<^verbatim>\<open>isActive\<close> and \<^verbatim>\<open>createdAt\<close>, and an update
  DTO a value for any of the schema's properties; \<open>None\<close> is a key the object does not
  have. The values are of the path's type. An update DTO with an \<^verbatim>\<open>_id\<close> is left out:
  MongoDB does not change the \<^verbatim>\<open>_id\<close> of a stored document.
\<close>

record CreateUserDto =
  dto_username :: string
  dto_email :: string
  dto_password :: string
  dto_id :: "objectid option"
  dto_files :: "fileData list option"
  dto_isActive :: "bool option"
  dto_createdAt :: "nat option"

record UpdateUserDto =
  upd_username :: "string option"
  upd_email :: "string option"
  upd_password :: "string option"
  upd_files :: "fileData list option"
  upd_isActive :: "bool option"
  upd_createdAt :: "nat option"

text \<open>The object \<^verbatim>\<open>dataToEmail\<close> handed to the email service.\<close>

record email_data =
  mail_URL :: "string option"
  mail_name :: string
  mail_email :: string
  mail_subject :: string
  mail_template :: string

subsection \<open>The state and the collaborators\<close>

record world =
  users :: "user list"
  sendEmail_calls :: "email_data list"

text \<open>
  \<^item> \<open>bcrypt_genSalt\<close>, \<open>bcrypt_hash\<close>, \<open>bcrypt_compare\<close>: the three bcrypt calls;
  \<^item> \<open>ObjectId_parse\<close>: \<^verbatim>\<open>new Types.ObjectId(s)\<close> for a string \<open>s\<close>, \<open>None\<close> where it
    throws; \<^verbatim>\<open>Types.ObjectId.isValid(s)\<close> holds exactly where it does not, and
    Mongoose casts a string in a query on \<^verbatim>\<open>_id\<close> the same way;
  \<^item> \<open>ObjectId_generate\<close>: the \<^verbatim>\<open>_id\<close> a new document is given;
  \<^item> \<open>Date_now\<close>: the clock behind the default of \<^verbatim>\<open>createdAt\<close>;
  \<^item> \<open>sendEmail_error\<close>: what \<^verbatim>\<open>EmailService.sendEmail\<close> throws for a mail, \<open>None\<close>
    where it resolves. Modelled from the spec: the email service (src/email is not among
    the sources) is \<^verbatim>\<open>send(...) -> void | SendError\<close>.
\<close>

record env =
  bcrypt_genSalt :: "nat \<Rightarrow> string"
  bcrypt_hash :: "string \<Rightarrow> string \<Rightarrow> string"
  bcrypt_compare :: "string \<Rightarrow> string \<Rightarrow> bool"
  ObjectId_parse :: "string \<Rightarrow> objectid option"
  ObjectId_generate :: "user list \<Rightarrow> objectid"
  Date_now :: nat
  sendEmail_error :: "email_data \<Rightarrow> exn option"

definition ObjectId_isValid :: "env \<Rightarrow> string \<Rightarrow> bool" where
  "ObjectId_isValid env s = (ObjectId_parse env s \<noteq> None)"

subsection \<open>The token service (JwtModule.register in user.module.ts)\<close>

text \<open>
  A token is modelled symbolically: the registered secret, the registered lifetime in
  seconds and the payload that was signed. The two payloads the services sign are
  \<^verbatim>\<open>{ id }\<close> (createNewUser) and \<^verbatim>\<open>{ username, sub }\<close> (AuthService.login).
\<close>

datatype jwt_payload = IdPayload objectid | LoginPayload string objectid

datatype jwt = Jwt string nat jwt_payload

definition jwtService_sign :: "jwt_payload \<Rightarrow> jwt" where
  "jwtService_sign p = Jwt ''secretKey'' 3000 p"


subsection \<open>encodeURIComponent\<close>

text \<open>
  Strings are byte strings (UTF-8): every byte that is not an unreserved character
  becomes \<^verbatim>\<open>%XX\<close>.
\<close>

definition uriUnreserved :: "char \<Rightarrow> bool" where
  "uriUnreserved c =
     (c \<in> set (''ABCDEFGHIJKLMNOPQRSTUVWXYZabcdefghijklmnopqrstuvwxyz0123456789-_.!~*()''
               @ [CHR 0x27]))"

definition hexDigit :: "nat \<Rightarrow> char" where
  "hexDigit n = ''0123456789ABCDEF'' ! (n mod 16)"

definition percentEncode :: "char \<Rightarrow> string" where
  "percentEncode c =
     [CHR ''%'', hexDigit ((of_char c :: nat) div 16), hexDigit ((of_char c :: nat) mod 16)]"

definition encodeURIComponent :: "string \<Rightarrow> string" where
  "encodeURIComponent s =
     concat (map (\<lambda>c. if uriUnreserved c then [c] else percentEncode c) s)"

subsection \<open>The collection (the Mongoose model of the User schema)\<close>

text \<open>
  \<^verbatim>\<open>new this.userModel({...createUserDTO, password: hashedPassword})\<close>: every field the
  DTO carries, except that the password is replaced (the key \<^verbatim>\<open>password\<close> comes after the
  spread); for a path the DTO does not carry, the schema's default, and a generated
  \<^verbatim>\<open>_id\<close>.
\<close>

definition new_userModel :: "env \<Rightarrow> world \<Rightarrow> CreateUserDto \<Rightarrow> string \<Rightarrow> user" where
  "new_userModel env w createUserDTO hashedPassword =
     \<lparr> oid = (case dto_id createUserDTO of
                None \<Rightarrow> ObjectId_generate env (users w) | Some i \<Rightarrow> i),
       username = dto_username createUserDTO,
       email = dto_email createUserDTO,
       password = hashedPassword,
       files = (case dto_files createUserDTO of None \<Rightarrow> [] | Some fs \<Rightarrow> fs),
       isActive = (case dto_isActive createUserDTO of None \<Rightarrow> False | Some b \<Rightarrow> b),
       createdAt = (case dto_createdAt createUserDTO of
                      None \<Rightarrow> Date_now env | Some t \<Rightarrow> t) \<rparr>"

text \<open>
  \<^verbatim>\<open>save()\<close> of a new document inserts it. The schema declares no unique index
  (no \<^verbatim>\<open>@Prop({ unique: true })\<close>), so the only unique index of the collection is
  MongoDB's own on \<^verbatim>\<open>_id\<close>: the insert is refused with the duplicate-key error 11000
  exactly when the \<^verbatim>\<open>_id\<close> is taken.
\<close>

definition save_new :: "world \<Rightarrow> user \<Rightarrow> exn + (user \<times> world)" where
  "save_new w u =
     (if oid u \<in> set (map oid (users w))
      then Inl (MongoServerError 11000 ''E11000 duplicate key error index: _id_'')
      else Inr (u, w\<lparr>users := users w @ [u]\<rparr>))"

text \<open>The first document that satisfies \<open>P\<close> is replaced by its image under \<open>f\<close>.\<close>

fun update_first :: "(user \<Rightarrow> bool) \<Rightarrow> (user \<Rightarrow> user) \<Rightarrow> user list \<Rightarrow> user list" where
  "update_first P f [] = []"
| "update_first P f (u # us) = (if P u then f u # us else u # update_first P f us)"

text \<open>\<^verbatim>\<open>save()\<close> of a document that was read from the collection writes it back by \<^verbatim>\<open>_id\<close>.\<close>

definition save_existing :: "world \<Rightarrow> user \<Rightarrow> world" where
  "save_existing w u = w\<lparr>users := update_first (\<lambda>x. oid x = oid u) (\<lambda>x. u) (users w)\<rparr>"

text \<open>
  The two queries the services pass to \<^verbatim>\<open>findOne\<close>: \<^verbatim>\<open>{ email }\<close> and \<^verbatim>\<open>{ _id: userId }\<close>,
  the latter with the raw string of the route parameter, which Mongoose casts.
\<close>

datatype query = ByEmail string | ById string

definition findById :: "env \<Rightarrow> world \<Rightarrow> string \<Rightarrow> exn + user option" where
  "findById env w userId =
     (case ObjectId_parse env userId of
        None \<Rightarrow> Inl (CastError userId)
      | Some i \<Rightarrow> Inr (find (\<lambda>u. oid u = i) (users w)))"

fun findOne :: "env \<Rightarrow> world \<Rightarrow> query \<Rightarrow> exn + user option" where
  "findOne env w (ByEmail e) = Inr (find (\<lambda>u. email u = e) (users w))"
| "findOne env w (ById userId) = findById env w userId"

text \<open>
  The updates the services pass to \<^verbatim>\<open>findByIdAndUpdate\<close>. \<^verbatim>\<open>updateUser\<close> passes the DTO
  itself: every field it carries is set to the value it carries, the files list and the
  password included.
\<close>

definition apply_UpdateUserDto :: "UpdateUserDto \<Rightarrow> user \<Rightarrow> user" where
  "apply_UpdateUserDto d u =
     u\<lparr> username := (case upd_username d of None \<Rightarrow> username u | Some v \<Rightarrow> v),
        email := (case upd_email d of None \<Rightarrow> email u | Some v \<Rightarrow> v),
        password := (case upd_password d of None \<Rightarrow> password u | Some v \<Rightarrow> v),
        files := (case upd_files d of None \<Rightarrow> files u | Some v \<Rightarrow> v),
        isActive := (case upd_isActive d of None \<Rightarrow> isActive u | Some v \<Rightarrow> v),
        createdAt := (case upd_createdAt d of None \<Rightarrow> createdAt u | Some v \<Rightarrow> v) \<rparr>"

definition push_files :: "fileData \<Rightarrow> user \<Rightarrow> user" where
  "push_files fileData u = u\<lparr>files := files u @ [fileData]\<rparr>"

text \<open>
  \<^verbatim>\<open>findByIdAndUpdate(objectId, update, { new: true })\<close>: the updated document, or
  \<^verbatim>\<open>null\<close> and an unchanged collection when no document has this \<^verbatim>\<open>_id\<close>.
\<close>

definition findByIdAndUpdate ::
  "world \<Rightarrow> objectid \<Rightarrow> (user \<Rightarrow> user) \<Rightarrow> user option \<times> world" where
  "findByIdAndUpdate w objectId f =
     (case find (\<lambda>u. oid u = objectId) (users w) of
        None \<Rightarrow> (None, w)
      | Some u \<Rightarrow> (Some (f u), w\<lparr>users := update_first (\<lambda>x. oid x = objectId) f (users w)\<rparr>))"

subsection \<open>The email service\<close>

text \<open>The call is recorded, then it resolves or throws as the collaborator decides.\<close>

definition sendEmail :: "env \<Rightarrow> world \<Rightarrow> email_data \<Rightarrow> (exn + unit) \<times> world" where
  "sendEmail env w dataToEmail =
     (let w' = w\<lparr>sendEmail_calls := sendEmail_calls w @ [dataToEmail]\<rparr>
      in case sendEmail_error env dataToEmail of
           Some error \<Rightarrow> (Inl error, w')
         | None \<Rightarrow> (Inr (), w'))"

subsection \<open>UserService (user.service.ts)\<close>

text \<open>
  Each method is a \<^verbatim>\<open>try\<close> block and a \<^verbatim>\<open>catch\<close> block. The \<open>_try\<close> definition is the
  body, the \<open>_catch\<close> definition maps the caught error to the exception that is thrown
  instead, and the method applies the one to the other.
\<close>

subsubsection \<open>createNewUser\<close>

definition createNewUser_try :: "env \<Rightarrow> world \<Rightarrow> CreateUserDto \<Rightarrow> (exn + jwt) \<times> world" where
  "createNewUser_try env w createUserDTO =
     (let salt = bcrypt_genSalt env 10;
          hashedPassword = bcrypt_hash env (dto_password createUserDTO) salt;
          user = new_userModel env w createUserDTO hashedPassword
      in case save_new w user of
           Inl error \<Rightarrow> (Inl error, w)
         | Inr (savedUser, w1) \<Rightarrow>
             (let token = jwtService_sign (IdPayload (oid savedUser));
                  confirmation_url =
                    ''http://localhost:3000/user/verify/'' @
                    encodeURIComponent (toString (oid savedUser));
                  dataToEmail =
                    \<lparr> mail_URL = Some confirmation_url,
                      mail_name = username savedUser,
                      mail_email = email savedUser,
                      mail_subject = ''Account Verification Required!'',
                      mail_template = ''userVerificationRequest'' \<rparr>
              in case sendEmail env w1 dataToEmail of
                   (Inl error, w2) \<Rightarrow> (Inl error, w2)
                 | (Inr _, w2) \<Rightarrow> (Inr token, w2)))"

definition createNewUser_catch :: "exn \<Rightarrow> exn" where
  "createNewUser_catch error =
     (if code error = Some 11000
      then BadRequestException ''User with given email or username already exists''
      else InternalServerErrorException (message error))"

definition createNewUser :: "env \<Rightarrow> world \<Rightarrow> CreateUserDto \<Rightarrow> (exn + jwt) \<times> world" where
  "createNewUser env w createUserDTO =
     (case createNewUser_try env w createUserDTO of
        (Inl error, w') \<Rightarrow> (Inl (createNewUser_catch error), w')
      | (Inr token, w') \<Rightarrow> (Inr token, w'))"

subsubsection \<open>The catch block shared by updateUser, updateUserFiles and updateUserVerificationStatus\<close>

definition rethrow_catch :: "exn \<Rightarrow> exn" where
  "rethrow_catch error =
     (if instanceof_NotFoundException error \<or> instanceof_BadRequestException error
      then error
      else InternalServerErrorException (message error))"

subsubsection \<open>updateUser\<close>

definition updateUser_try ::
  "env \<Rightarrow> world \<Rightarrow> string \<Rightarrow> UpdateUserDto \<Rightarrow> (exn + user) \<times> world" where
  "updateUser_try env w userId updateUserDTO =
     (if \<not> ObjectId_isValid env userId
      then (Inl (BadRequestException ''Invalid user ID''), w)
      else case ObjectId_parse env userId of
             None \<Rightarrow> (Inl (Error ''input must be a 24 character hex string''), w)
           | Some objectId \<Rightarrow>
               (case findByIdAndUpdate w objectId (apply_UpdateUserDto updateUserDTO) of
                  (None, w') \<Rightarrow> (Inl (NotFoundException ''User not found''), w')
                | (Some updatedUser, w') \<Rightarrow> (Inr updatedUser, w')))"

definition updateUser ::
  "env \<Rightarrow> world \<Rightarrow> string \<Rightarrow> UpdateUserDto \<Rightarrow> (exn + user) \<times> world" where
  "updateUser env w userId updateUserDTO =
     (case updateUser_try env w userId updateUserDTO of
        (Inl error, w') \<Rightarrow> (Inl (rethrow_catch error), w')
      | (Inr updatedUser, w') \<Rightarrow> (Inr updatedUser, w'))"

subsubsection \<open>getUser\<close>

text \<open>
  The result is the value of the variable \<^verbatim>\<open>user\<close>, which JavaScript allows to be
  \<^verbatim>\<open>null\<close>: hence \<open>user option\<close>. The \<^verbatim>\<open>NotFoundException\<close> is thrown inside the \<^verbatim>\<open>try\<close>
  block, so the \<^verbatim>\<open>catch\<close> block receives it like any other error.
\<close>

definition getUser_try :: "env \<Rightarrow> world \<Rightarrow> query \<Rightarrow> exn + user option" where
  "getUser_try env w query =
     (case findOne env w query of
        Inl error \<Rightarrow> Inl error
      | Inr user \<Rightarrow>
          if user = None then Inl (NotFoundException ''User not found'') else Inr user)"

definition getUser :: "env \<Rightarrow> world \<Rightarrow> query \<Rightarrow> exn + user option" where
  "getUser env w query =
     (case getUser_try env w query of
        Inl error \<Rightarrow> Inl (InternalServerErrorException (message error))
      | Inr user \<Rightarrow> Inr user)"

subsubsection \<open>updateUserFiles\<close>

text \<open>The document that \<^verbatim>\<open>findByIdAndUpdate\<close> returns is not looked at.\<close>

definition updateUserFiles_try ::
  "env \<Rightarrow> world \<Rightarrow> string \<Rightarrow> fileData \<Rightarrow> (exn + unit) \<times> world" where
  "updateUserFiles_try env w userId fileData =
     (if \<not> ObjectId_isValid env userId
      then (Inl (BadRequestException ''Invalid user ID''), w)
      else case ObjectId_parse env userId of
             None \<Rightarrow> (Inl (Error ''input must be a 24 character hex string''), w)
           | Some objectId \<Rightarrow>
               (case findByIdAndUpdate w objectId (push_files fileData) of
                  (updated, w') \<Rightarrow> (Inr (), w')))"

definition updateUserFiles ::
  "env \<Rightarrow> world \<Rightarrow> string \<Rightarrow> fileData \<Rightarrow> (exn + unit) \<times> world" where
  "updateUserFiles env w userId fileData =
     (case updateUserFiles_try env w userId fileData of
        (Inl error, w') \<Rightarrow> (Inl (rethrow_catch error), w')
      | (Inr u, w') \<Rightarrow> (Inr u, w'))"

subsubsection \<open>updateUserVerificationStatus\<close>

definition updateUserVerificationStatus_try ::
  "env \<Rightarrow> world \<Rightarrow> string \<Rightarrow> (exn + bool) \<times> world" where
  "updateUserVerificationStatus_try env w userId =
     (case findById env w userId of
        Inl error \<Rightarrow> (Inl error, w)
      | Inr None \<Rightarrow> (Inl (NotFoundException ''User not found''), w)
      | Inr (Some user) \<Rightarrow>
          if isActive user
          then (Inl (BadRequestException ''User is already verified''), w)
          else
            (let user' = user\<lparr>isActive := True\<rparr>;
                 w1 = save_existing w user';
                 dataToEmail =
                   \<lparr> mail_URL = None,
                     mail_name = username user',
                     mail_email = email user',
                     mail_subject = ''Account Verification Success!'',
                     mail_template = ''accountVerified'' \<rparr>
             in case sendEmail env w1 dataToEmail of
                  (Inl error, w2) \<Rightarrow> (Inl error, w2)
                | (Inr _, w2) \<Rightarrow> (Inr True, w2)))"

definition updateUserVerificationStatus ::
  "env \<Rightarrow> world \<Rightarrow> string \<Rightarrow> (exn + bool) \<times> world" where
  "updateUserVerificationStatus env w userId =
     (case updateUserVerificationStatus_try env w userId of
        (Inl error, w') \<Rightarrow> (Inl (rethrow_catch error), w')
      | (Inr b, w') \<Rightarrow> (Inr b, w'))"

subsection \<open>AuthService (auth.service.ts)\<close>

text \<open>
  \<^verbatim>\<open>validateUser\<close> has no \<^verbatim>\<open>try\<close> block: what \<^verbatim>\<open>getUser\<close> throws leaves the method as
  it is. The three tests of \<^verbatim>\<open>user\<close> are kept as the source has them.
\<close>

definition validateUser :: "env \<Rightarrow> world \<Rightarrow> string \<Rightarrow> string \<Rightarrow> exn + user option" where
  "validateUser env w email' password' =
     (case getUser env w (ByEmail email') of
        Inl error \<Rightarrow> Inl error
      | Inr user \<Rightarrow>
          (case user of
             None \<Rightarrow> Inr None
           | Some u \<Rightarrow>
               (let passwordValid = bcrypt_compare env password' (password u)
                in if user = None
                   then Inl (NotAcceptableException ''could not find the user'')
                   else if user \<noteq> None \<and> passwordValid then Inr user
                   else Inr None)))"

text \<open>\<^verbatim>\<open>login\<close>: the \<^verbatim>\<open>access_token\<close> of the object it returns.\<close>

definition login :: "user \<Rightarrow> jwt" where
  "login user = jwtService_sign (LoginPayload (username user) (oid user))"

subsection \<open>UserController.getUserById (user.controller.ts)\<close>

text \<open>
  What Mongoose serialises of a document of the schema: its \<^verbatim>\<open>_id\<close> and the schema's
  properties, by name.
\<close>

datatype jsvalue =
    JString string
  | JBool bool
  | JNumber nat
  | JObjectId objectid
  | JFiles "fileData list"

definition toObject :: "user \<Rightarrow> (string \<times> jsvalue) list" where
  "toObject u =
     [ (''_id'', JObjectId (oid u)),
       (''username'', JString (username u)),
       (''email'', JString (email u)),
       (''password'', JString (password u)),
       (''files'', JFiles (files u)),
       (''isActive'', JBool (isActive u)),
       (''createdAt'', JNumber (createdAt u)) ]"

record api_response =
  resp_success :: bool
  resp_message :: string
  resp_statusCode :: nat
  resp_data :: "(string \<times> jsvalue) list option"

text \<open>
  Modelled from the spec: \<^verbatim>\<open>ApiResponseHandler.successResponse\<close> (src/utils is not among
  the sources). The spec: every client-facing response carries a success flag, a message
  and a payload.
\<close>

definition successResponse ::
  "(string \<times> jsvalue) list option \<Rightarrow> string \<Rightarrow> nat \<Rightarrow> api_response" where
  "successResponse payload msg status =
     \<lparr> resp_success = True, resp_message = msg, resp_statusCode = status,
       resp_data = payload \<rparr>"

text \<open>
  The handler passes the value of \<^verbatim>\<open>getUser\<close> to \<^verbatim>\<open>ApiResponseHandler.successResponse\<close>
  as it is, with the message and the status; \<open>respond\<close> is that function. In the \<^verbatim>\<open>catch\<close>
  block it passes the error to \<^verbatim>\<open>ApiResponseHandler.errorResponse\<close>; \<open>Inl\<close> is that
  error.
\<close>

definition getUserById ::
  "env \<Rightarrow> ((string \<times> jsvalue) list option \<Rightarrow> string \<Rightarrow> nat \<Rightarrow> 'r) \<Rightarrow> world \<Rightarrow> string
     \<Rightarrow> exn + 'r" where
  "getUserById env respond w userId =
     (case getUser env w (ById userId) of
        Inl error \<Rightarrow> Inl error
      | Inr user \<Rightarrow>
          Inr (respond (map_option toObject user) ''User fetched successfully'' 200))"

subsection \<open>The operations of the core, as one step function\<close>

datatype operation =
    CreateNewUser CreateUserDto
  | UpdateUser string UpdateUserDto
  | GetUser query
  | UpdateUserFiles string fileData
  | UpdateUserVerificationStatus string
  | ValidateUser string string
  | Login user

text \<open>The state after an operation. The three read-only operations leave it as it is.\<close>

fun step :: "env \<Rightarrow> world \<Rightarrow> operation \<Rightarrow> world" where
  "step env w (CreateNewUser d) = snd (createNewUser env w d)"
| "step env w (UpdateUser i d) = snd (updateUser env w i d)"
| "step env w (GetUser q) = w"
| "step env w (UpdateUserFiles i f) = snd (updateUserFiles env w i f)"
| "step env w (UpdateUserVerificationStatus i) = snd (updateUserVerificationStatus env w i)"
| "step env w (ValidateUser e p) = w"
| "step env w (Login u) = w"

text \<open>A sequence of \<^verbatim>\<open>updateUserFiles\<close> calls on one id: the outcomes and the final state.\<close>

fun updateUserFiles_seq ::
  "env \<Rightarrow> world \<Rightarrow> string \<Rightarrow> fileData list \<Rightarrow> (exn + unit) list \<times> world" where
  "updateUserFiles_seq env w userId [] = ([], w)"
| "updateUserFiles_seq env w userId (f # fs) =
     (case updateUserFiles env w userId f of
        (r, w') \<Rightarrow>
          (case updateUserFiles_seq env w' userId fs of
             (rs, w'') \<Rightarrow> (r # rs, w'')))"

text \<open>A sequence of \<^verbatim>\<open>updateUserVerificationStatus\<close> calls on one id.\<close>

fun verify_seq :: "env \<Rightarrow> world \<Rightarrow> string \<Rightarrow> nat \<Rightarrow> (exn + bool) list \<times> world" where
  "verify_seq env w userId 0 = ([], w)"
| "verify_seq env w userId (Suc n) =
     (case updateUserVerificationStatus env w userId of
        (r, w') \<Rightarrow>
          (case verify_seq env w' userId n of
             (rs, w'') \<Rightarrow> (r # rs, w'')))"

subsection \<open>Names for the values the statements speak about\<close>

text \<open>
  The document \<^verbatim>\<open>createNewUser\<close> saves for a DTO, with the salt and the hash computed as
  its first two lines do.
\<close>

definition signup_document :: "env \<Rightarrow> world \<Rightarrow> CreateUserDto \<Rightarrow> user" where
  "signup_document env w d =
     \<lparr> oid = (case dto_id d of None \<Rightarrow> ObjectId_generate env (users w) | Some i \<Rightarrow> i),
       username = dto_username d,
       email = dto_email d,
       password = bcrypt_hash env (dto_password d) (bcrypt_genSalt env 10),
       files = (case dto_files d of None \<Rightarrow> [] | Some fs \<Rightarrow> fs),
       isActive = (case dto_isActive d of None \<Rightarrow> False | Some b \<Rightarrow> b),
       createdAt = (case dto_createdAt d of None \<Rightarrow> Date_now env | Some t \<Rightarrow> t) \<rparr>"

text \<open>The signup DTO that carries a username, an email and a password and nothing else.\<close>

definition signup_input :: "string \<Rightarrow> string \<Rightarrow> string \<Rightarrow> CreateUserDto" where
  "signup_input name mail pw =
     \<lparr> dto_username = name, dto_email = mail, dto_password = pw,
       dto_id = None, dto_files = None, dto_isActive = None, dto_createdAt = None \<rparr>"

text \<open>The update DTO that carries a files list and nothing else.\<close>

definition updateDto_files :: "fileData list \<Rightarrow> UpdateUserDto" where
  "updateDto_files fs =
     \<lparr> upd_username = None, upd_email = None, upd_password = None,
       upd_files = Some fs, upd_isActive = None, upd_createdAt = None \<rparr>"

text \<open>The operation is an \<^verbatim>\<open>updateUser\<close> whose DTO carries a files list.\<close>

fun sets_files :: "operation \<Rightarrow> bool" where
  "sets_files (UpdateUser i d) = (upd_files d \<noteq> None)"
| "sets_files op = False"

text \<open>The \<^verbatim>\<open>dataToEmail\<close> of \<^verbatim>\<open>createNewUser\<close> for the saved user \<open>u\<close>.\<close>

definition userVerificationRequest_mail :: "user \<Rightarrow> email_data" where
  "userVerificationRequest_mail u =
     \<lparr> mail_URL = Some (''http://localhost:3000/user/verify/'' @
                        encodeURIComponent (toString (oid u))),
       mail_name = username u,
       mail_email = email u,
       mail_subject = ''Account Verification Required!'',
       mail_template = ''userVerificationRequest'' \<rparr>"

text \<open>The \<^verbatim>\<open>dataToEmail\<close> of \<^verbatim>\<open>updateUserVerificationStatus\<close> for the user \<open>u\<close>.\<close>

definition accountVerified_mail :: "user \<Rightarrow> email_data" where
  "accountVerified_mail u =
     \<lparr> mail_URL = None,
       mail_name = username u,
       mail_email = email u,
       mail_subject = ''Account Verification Success!'',
       mail_template = ''accountVerified'' \<rparr>"

text \<open>
  The document \<open>u'\<close> is the document \<open>u\<close> at a later time with nothing taken from its
  files: it has the same \<^verbatim>\<open>_id\<close>, and its list of files starts with the files of \<open>u\<close>, in
  the same order.
\<close>

definition files_kept :: "user \<Rightarrow> user \<Rightarrow> bool" where
  "files_kept u u' = (oid u' = oid u \<and> prefix (files u) (files u'))"

subsection \<open>Concrete collaborators and states for the examples\<close>

text \<open>
  A toy instance of the collaborators: the hash prefixes the salt, an ObjectId is any
  string of 24 characters, the generated one ends in the number of documents, the email service fails for the mails whose template is in
  \<open>failing\<close>.
\<close>

definition test_env :: "string list \<Rightarrow> env" where
  "test_env failing =
     \<lparr> bcrypt_genSalt = (\<lambda>rounds. ''$2b$10$salt''),
       bcrypt_hash = (\<lambda>p salt. salt @ rev p),
       bcrypt_compare = (\<lambda>p h. h = ''$2b$10$salt'' @ rev p),
       ObjectId_parse = (\<lambda>s. if length s = 24 then Some (ObjectId s) else None),
       ObjectId_generate = (\<lambda>us. ObjectId (''aaaaaaaaaaaaaaaaaaaaaaa'' @ [hexDigit (length us)])),
       Date_now = 1700000000,
       sendEmail_error =
         (\<lambda>d. if mail_template d \<in> set failing then Some (Error ''SMTP connection refused'')
               else None) \<rparr>"

definition alice :: user where
  "alice =
     \<lparr> oid = ObjectId ''aaaaaaaaaaaaaaaaaaaaaaaa'',
       username = ''a'',
       email = ''a@x.com'',
       password = ''$2b$10$salt1p'',
       files = [],
       isActive = False,
       createdAt = 1700000000 \<rparr>"

definition empty_world :: world where
  "empty_world = \<lparr> users = [], sendEmail_calls = [] \<rparr>"

definition alice_world :: world where
  "alice_world = \<lparr> users = [alice], sendEmail_calls = [] \<rparr>"

section \<open>Properties\<close>

subsection \<open>Auxiliary facts\<close>

lemma sendEmail_simp:
  "sendEmail env w d =
     ((case sendEmail_error env d of Some e \<Rightarrow> Inl e | None \<Rightarrow> Inr ()),
      w\<lparr>sendEmail_calls := sendEmail_calls w @ [d]\<rparr>)"
  by (simp add: sendEmail_def Let_def split: option.splits)

lemma getUser_cases:
  "getUser env w q =
     (case findOne env w q of
        Inl e \<Rightarrow> Inl (InternalServerErrorException (message e))
      | Inr None \<Rightarrow> Inl (InternalServerErrorException ''User not found'')
      | Inr (Some u) \<Rightarrow> Inr (Some u))"
  by (simp add: getUser_def getUser_try_def split: sum.splits option.splits)

lemma find_update_first:
  assumes "\<And>u. P u \<Longrightarrow> P (f u)"
  shows "find P (update_first P f us) = map_option f (find P us)"
  using assms by (induction us) auto

lemma update_first_twice:
  assumes "\<And>u. P u \<Longrightarrow> P (f u)"
  shows "update_first P g (update_first P f us) = update_first P (\<lambda>u. g (f u)) us"
  using assms by (induction us) auto

lemma update_first_id:
  "(\<And>u. u \<in> set us \<Longrightarrow> P u \<Longrightarrow> f u = u) \<Longrightarrow> update_first P f us = us"
  by (induction us) auto

lemma update_first_found:
  "find P us = Some u \<Longrightarrow> f u = g u \<Longrightarrow> update_first P f us = update_first P g us"
  by (induction us) (auto split: if_splits)

lemma length_update_first [simp]: "length (update_first P f us) = length us"
  by (induction us) auto

lemma list_all2_update_first:
  assumes "\<And>u. R u u" and "\<And>u. P u \<Longrightarrow> R u (f u)"
  shows "list_all2 R us (update_first P f us)"
  using assms by (induction us) (auto simp: list_all2_refl)

lemma find_oid: "find (\<lambda>x. oid x = i) us = Some u \<Longrightarrow> oid u = i"
  by (auto simp: find_Some_iff)

lemma alice_found:
  "findById (test_env fl) alice_world ''aaaaaaaaaaaaaaaaaaaaaaaa'' = Inr (Some alice)"
  by (simp add: findById_def test_env_def alice_world_def alice_def)

lemma fresh_alice_world:
  "oid (signup_document (test_env fl) alice_world (signup_input n m p))
     \<notin> set (map oid (users alice_world))"
  by (simp add: signup_document_def signup_input_def test_env_def alice_world_def alice_def
      hexDigit_def)


subsection \<open>validateUser and getUser\<close>

text \<open>
  Claim C9. The branch of \<^verbatim>\<open>validateUser\<close> that throws
  \<^verbatim>\<open>NotAcceptableException('could not find the user')\<close> is never taken: for every
  collection, email and password, and whatever the libraries compute, the method does not
  end in a \<^verbatim>\<open>NotAcceptableException\<close>, with this message or any other. Where the lookup
  finds no user, \<^verbatim>\<open>getUser\<close> has thrown already, and a \<^verbatim>\<open>null\<close> would have been
  returned by the first test.
\<close>

theorem validateUser_never_NotAcceptable:
  "validateUser env w e p \<noteq> Inl (NotAcceptableException m)"
  by (simp add: validateUser_def getUser_cases Let_def split: sum.splits option.splits)

text \<open>
  Claim C1. The claim asks for one and the same failure whether the email is unknown or
  the password is wrong. The code tells the two apart. On the empty collection
  \<^verbatim>\<open>validateUser\<close> throws \<^verbatim>\<open>InternalServerErrorException('User not found')\<close>, which
  \<^verbatim>\<open>getUser\<close> made of its own \<^verbatim>\<open>NotFoundException\<close>; with the account stored and a wrong
  password it returns \<^verbatim>\<open>null\<close>. With the right password it returns the account.
\<close>

theorem validateUser_failure_causes_differ:
  "validateUser (test_env []) empty_world ''a@x.com'' ''p1''
     = Inl (InternalServerErrorException ''User not found'') \<and>
   validateUser (test_env []) alice_world ''a@x.com'' ''wrong'' = Inr None \<and>
   validateUser (test_env []) alice_world ''a@x.com'' ''p1'' = Inr (Some alice)"
  by (simp add: validateUser_def getUser_cases test_env_def empty_world_def alice_world_def
      alice_def)

text \<open>
  Claim C7. The claim asks for a \<^verbatim>\<open>NotFound\<close> error when no account has the id. In the
  code \<^verbatim>\<open>getUser\<close> never ends in a \<^verbatim>\<open>NotFoundException\<close>, whatever the query: its
  \<^verbatim>\<open>catch\<close> block turns the one it throws into an \<^verbatim>\<open>InternalServerErrorException\<close> with
  the same message. On the empty collection both the service and the handler end in that
  error for a well-formed id.
\<close>

theorem getUser_missing_is_internal_error:
  "getUser env w query \<noteq> Inl (NotFoundException m) \<and>
   getUser (test_env []) empty_world (ById ''aaaaaaaaaaaaaaaaaaaaaaaa'')
     = Inl (InternalServerErrorException ''User not found'') \<and>
   getUserById (test_env []) successResponse empty_world ''aaaaaaaaaaaaaaaaaaaaaaaa''
     = Inl (InternalServerErrorException ''User not found'')"
  by (simp add: getUserById_def getUser_cases findById_def test_env_def empty_world_def
      split: sum.splits option.splits)

subsection \<open>updateUserFiles on an id without an account\<close>

text \<open>
  Claim C10. For every well-formed id (one that \<^verbatim>\<open>Types.ObjectId\<close> accepts) that is the
  \<^verbatim>\<open>_id\<close> of no stored document, \<^verbatim>\<open>updateUserFiles\<close> returns normally, without a value,
  and the state after the call is the state before it: no \<^verbatim>\<open>NotFoundException\<close>, and
  nothing appended anywhere.
\<close>

theorem updateUserFiles_unknown_id_is_noop:
  assumes "ObjectId_parse env userId = Some i"
      and "find (\<lambda>u. oid u = i) (users w) = None"
  shows "updateUserFiles env w userId fileData = (Inr (), w)"
  using assms
  by (simp add: updateUserFiles_def updateUserFiles_try_def ObjectId_isValid_def
      findByIdAndUpdate_def)

text \<open>
  The instance of C10 with one stored account and another, well-formed id: both
  hypotheses hold there.
\<close>

theorem updateUserFiles_unknown_id_is_noop_witness:
  "ObjectId_parse (test_env []) ''bbbbbbbbbbbbbbbbbbbbbbbb''
     = Some (ObjectId ''bbbbbbbbbbbbbbbbbbbbbbbb'') \<and>
   find (\<lambda>u. oid u = ObjectId ''bbbbbbbbbbbbbbbbbbbbbbbb'') (users alice_world) = None \<and>
   updateUserFiles (test_env []) alice_world ''bbbbbbbbbbbbbbbbbbbbbbbb''
     [(''Location'', ''s3://bucket/key'')] = (Inr (), alice_world)"
proof -
  have h1: "ObjectId_parse (test_env []) ''bbbbbbbbbbbbbbbbbbbbbbbb''
              = Some (ObjectId ''bbbbbbbbbbbbbbbbbbbbbbbb'')"
    by (simp add: test_env_def)
  have h2: "find (\<lambda>u. oid u = ObjectId ''bbbbbbbbbbbbbbbbbbbbbbbb'') (users alice_world) = None"
    by (simp add: alice_world_def alice_def)
  show ?thesis
    using h1 h2 updateUserFiles_unknown_id_is_noop [OF h1 h2] by simp
qed

subsection \<open>createNewUser\<close>

lemma new_userModel_signup_document:
  "new_userModel env w d (bcrypt_hash env (dto_password d) (bcrypt_genSalt env 10)) =
     signup_document env w d"
  by (simp add: new_userModel_def signup_document_def)

lemma createNewUser_fresh:
  assumes "oid (signup_document env w d) \<notin> set (map oid (users w))"
  shows "createNewUser env w d =
     ((case sendEmail_error env (userVerificationRequest_mail (signup_document env w d)) of
         Some e \<Rightarrow> Inl (createNewUser_catch e)
       | None \<Rightarrow> Inr (jwtService_sign (IdPayload (oid (signup_document env w d))))),
      w\<lparr> users := users w @ [signup_document env w d],
         sendEmail_calls := sendEmail_calls w @
            [userVerificationRequest_mail (signup_document env w d)] \<rparr>)"
  using assms
  by (simp add: createNewUser_def createNewUser_try_def save_new_def
      new_userModel_signup_document sendEmail_simp userVerificationRequest_mail_def Let_def
      split: option.splits)

text \<open>
  The duplicate-key error of the insert becomes the \<^verbatim>\<open>BadRequestException\<close>, and nothing
  is stored.
\<close>

lemma createNewUser_taken:
  assumes "oid (signup_document env w d) \<in> set (map oid (users w))"
  shows "createNewUser env w d =
     (Inl (BadRequestException ''User with given email or username already exists''), w)"
  using assms
  by (simp add: createNewUser_def createNewUser_try_def save_new_def
      new_userModel_signup_document createNewUser_catch_def Let_def)

text \<open>
  Claim C6. The claim asks that a signup whose email is that of a stored account creates
  nothing and fails with the "already exists" error. The schema declares no unique index
  on \<^verbatim>\<open>email\<close> or \<^verbatim>\<open>username\<close>, so the insert is accepted: with the account of
  \<open>a@x.com\<close> stored, a signup with the same email returns a token, and the collection
  holds two documents with that email.
\<close>

theorem createNewUser_accepts_duplicate_email:
  "createNewUser (test_env []) alice_world
     (signup_input ''b'' ''a@x.com'' ''p2'')
   = (Inr (Jwt ''secretKey'' 3000 (IdPayload (ObjectId ''aaaaaaaaaaaaaaaaaaaaaaa1''))),
      \<lparr> users = [alice,
          \<lparr> oid = ObjectId ''aaaaaaaaaaaaaaaaaaaaaaa1'', username = ''b'', email = ''a@x.com'',
            password = ''$2b$10$salt2p'', files = [], isActive = False,
            createdAt = 1700000000 \<rparr>],
        sendEmail_calls =
         [\<lparr> mail_URL = Some ''http://localhost:3000/user/verify/aaaaaaaaaaaaaaaaaaaaaaa1'',
            mail_name = ''b'', mail_email = ''a@x.com'',
            mail_subject = ''Account Verification Required!'',
            mail_template = ''userVerificationRequest'' \<rparr>] \<rparr>)"
  by (simp add: createNewUser_def createNewUser_try_def save_new_def new_userModel_def
      signup_input_def sendEmail_simp jwtService_sign_def encodeURIComponent_def
      uriUnreserved_def test_env_def alice_world_def alice_def hexDigit_def Let_def)




subsection \<open>updateUserVerificationStatus\<close>

lemma verify_pending:
  assumes "findById env w userId = Inr (Some u)" and "\<not> isActive u"
  shows "updateUserVerificationStatus env w userId =
     ((case sendEmail_error env (accountVerified_mail u) of
         Some e \<Rightarrow> Inl (rethrow_catch e) | None \<Rightarrow> Inr True),
      w\<lparr> users := update_first (\<lambda>x. oid x = oid u) (\<lambda>x. u\<lparr>isActive := True\<rparr>) (users w),
         sendEmail_calls := sendEmail_calls w @ [accountVerified_mail u] \<rparr>)"
  using assms
  by (simp add: updateUserVerificationStatus_def updateUserVerificationStatus_try_def
      sendEmail_simp save_existing_def accountVerified_mail_def Let_def split: option.splits)

text \<open>In any state in which the account is active, the call fails and changes nothing.\<close>

lemma verify_active:
  assumes "findById env w userId = Inr (Some u)" and "isActive u"
  shows "updateUserVerificationStatus env w userId =
           (Inl (BadRequestException ''User is already verified''), w)"
  using assms
  by (simp add: updateUserVerificationStatus_def updateUserVerificationStatus_try_def
      rethrow_catch_def)

lemma verify_seq_active:
  assumes "findById env w userId = Inr (Some u)" and "isActive u"
  shows "verify_seq env w userId n =
           (replicate n (Inl (BadRequestException ''User is already verified'')), w)"
  by (induction n) (simp_all add: verify_active [OF assms])

lemma findById_after_verify:
  assumes "findById env w userId = Inr (Some u)"
  shows "findById env
           (w\<lparr> users := update_first (\<lambda>x. oid x = oid u) (\<lambda>x. u\<lparr>isActive := True\<rparr>) (users w),
              sendEmail_calls := cs \<rparr>) userId
         = Inr (Some (u\<lparr>isActive := True\<rparr>))"
proof -
  from assms obtain i where i: "ObjectId_parse env userId = Some i"
    and f: "find (\<lambda>x. oid x = i) (users w) = Some u"
    by (auto simp: findById_def split: option.splits)
  have "oid u = i" using f by (rule find_oid)
  then show ?thesis using i f
    by (simp add: findById_def find_update_first)
qed

text \<open>
  Claim C2. Let the id be that of a stored account \<open>u\<close> that is not active. The first
  call of \<^verbatim>\<open>updateUserVerificationStatus\<close> writes the account back with
  \<^verbatim>\<open>isActive = true\<close> and every other field and every other document as before, so that a
  lookup by the id now finds the active account; it hands exactly one mail, the
  \<^verbatim>\<open>accountVerified\<close> mail for \<open>u\<close>, to the email service, and returns \<^verbatim>\<open>true\<close> when the
  service accepts it. From then on, any number of further calls on the same id each fail
  with \<^verbatim>\<open>BadRequestException('User is already verified')\<close> and leave the whole state,
  the collection and the list of mails, exactly as the first call left it.
\<close>

theorem verification_happens_once:
  assumes "findById env w userId = Inr (Some u)" and "\<not> isActive u"
  shows "(case updateUserVerificationStatus env w userId of
            (r, w1) \<Rightarrow>
              users w1 =
                update_first (\<lambda>x. oid x = oid u) (\<lambda>x. u\<lparr>isActive := True\<rparr>) (users w) \<and>
              findById env w1 userId = Inr (Some (u\<lparr>isActive := True\<rparr>)) \<and>
              sendEmail_calls w1 = sendEmail_calls w @ [accountVerified_mail u] \<and>
              (sendEmail_error env (accountVerified_mail u) = None \<longrightarrow> r = Inr True) \<and>
              (\<forall>n. verify_seq env w1 userId n =
                 (replicate n (Inl (BadRequestException ''User is already verified'')), w1)))"
proof -
  let ?w1 = "w\<lparr> users := update_first (\<lambda>x. oid x = oid u) (\<lambda>x. u\<lparr>isActive := True\<rparr>) (users w),
         sendEmail_calls := sendEmail_calls w @ [accountVerified_mail u] \<rparr>"
  have a: "findById env ?w1 userId = Inr (Some (u\<lparr>isActive := True\<rparr>))"
    by (rule findById_after_verify [OF assms(1)])
  have s: "\<And>n. verify_seq env ?w1 userId n =
                 (replicate n (Inl (BadRequestException ''User is already verified'')), ?w1)"
    by (rule verify_seq_active [OF a]) simp
  show ?thesis
    unfolding verify_pending [OF assms] using a s by simp
qed

text \<open>
  The instance of C2 with the one pending account of the example: the first call
  succeeds, the two calls after it fail and change nothing.
\<close>

theorem verification_happens_once_witness:
  "findById (test_env []) alice_world ''aaaaaaaaaaaaaaaaaaaaaaaa'' = Inr (Some alice) \<and>
   \<not> isActive alice \<and>
   (case updateUserVerificationStatus (test_env []) alice_world ''aaaaaaaaaaaaaaaaaaaaaaaa'' of
      (r, w1) \<Rightarrow>
        r = Inr True \<and>
        users w1 = [alice\<lparr>isActive := True\<rparr>] \<and>
        sendEmail_calls w1 = [accountVerified_mail alice] \<and>
        verify_seq (test_env []) w1 ''aaaaaaaaaaaaaaaaaaaaaaaa'' 2 =
          ([Inl (BadRequestException ''User is already verified''),
            Inl (BadRequestException ''User is already verified'')], w1))"
proof -
  have h1: "findById (test_env []) alice_world ''aaaaaaaaaaaaaaaaaaaaaaaa'' = Inr (Some alice)"
    by (rule alice_found)
  have h2: "\<not> isActive alice" by (simp add: alice_def)
  have m: "sendEmail_error (test_env []) (accountVerified_mail alice) = None"
    by (simp add: test_env_def)
  have u: "update_first (\<lambda>x. oid x = oid alice) (\<lambda>x. alice\<lparr>isActive := True\<rparr>) (users alice_world)
           = [alice\<lparr>isActive := True\<rparr>]"
    by (simp add: alice_world_def)
  have c: "sendEmail_calls alice_world = []" by (simp add: alice_world_def)
  have r: "replicate 2 (Inl (BadRequestException ''User is already verified'') :: exn + bool) =
          [Inl (BadRequestException ''User is already verified''),
            Inl (BadRequestException ''User is already verified'')]"
    by (simp add: numeral_2_eq_2)
  show ?thesis
    using verification_happens_once [OF h1 h2] h1 h2 m u c r by (auto split: prod.splits)
qed

subsection \<open>A rejected mail\<close>

text \<open>
  Claim C3, as stated, fails: with an email service that rejects both mails, the signup
  and the verification of the example store their change and then end in an
  \<^verbatim>\<open>InternalServerErrorException\<close> that carries the message of the email error. Neither
  returns its success value.
\<close>

theorem email_failure_is_not_swallowed:
  "fst (createNewUser (test_env [''userVerificationRequest'', ''accountVerified'']) alice_world
          (signup_input ''b'' ''b@x.com'' ''p2''))
     = Inl (InternalServerErrorException ''SMTP connection refused'') \<and>
   length (users (snd (createNewUser
          (test_env [''userVerificationRequest'', ''accountVerified'']) alice_world
          (signup_input ''b'' ''b@x.com'' ''p2'')))) = 2 \<and>
   fst (updateUserVerificationStatus
          (test_env [''userVerificationRequest'', ''accountVerified'']) alice_world
          ''aaaaaaaaaaaaaaaaaaaaaaaa'')
     = Inl (InternalServerErrorException ''SMTP connection refused'') \<and>
   users (snd (updateUserVerificationStatus
          (test_env [''userVerificationRequest'', ''accountVerified'']) alice_world
          ''aaaaaaaaaaaaaaaaaaaaaaaa''))
     = [alice\<lparr>isActive := True\<rparr>]"
proof -
  have p: "\<not> isActive alice" by (simp add: alice_def)
  have u: "update_first (\<lambda>x. oid x = oid alice) (\<lambda>x. alice\<lparr>isActive := True\<rparr>) (users alice_world)
           = [alice\<lparr>isActive := True\<rparr>]"
    by (simp add: alice_world_def)
  show ?thesis
    unfolding createNewUser_fresh [OF fresh_alice_world] verify_pending [OF alice_found p] u
    by (simp add: signup_document_def userVerificationRequest_mail_def accountVerified_mail_def
        createNewUser_catch_def rethrow_catch_def test_env_def alice_world_def)
qed

text \<open>
  Claim C3, amended. Where the account mutation itself succeeds and the email service
  then rejects the mail with an error \<open>e\<close>, neither operation swallows \<open>e\<close>: the call
  fails with what its \<^verbatim>\<open>catch\<close> block makes of \<open>e\<close>. For \<^verbatim>\<open>createNewUser\<close> that is an
  \<^verbatim>\<open>InternalServerErrorException\<close> with the message of \<open>e\<close> (the "already exists"
  \<^verbatim>\<open>BadRequestException\<close> should \<open>e\<close> carry the code 11000); for
  \<^verbatim>\<open>updateUserVerificationStatus\<close> it is an \<^verbatim>\<open>InternalServerErrorException\<close> with the
  message of \<open>e\<close> (\<open>e\<close> itself should it be a \<^verbatim>\<open>NotFoundException\<close> or a
  \<^verbatim>\<open>BadRequestException\<close>). The state that was written is not rolled back: the new
  document stays in the collection, and the verified account stays active.
\<close>

theorem email_failure_propagates_state_kept:
  "(oid (signup_document env w d) \<notin> set (map oid (users w)) \<and>
    sendEmail_error env (userVerificationRequest_mail (signup_document env w d)) = Some e \<longrightarrow>
      createNewUser env w d =
        (Inl (if code e = Some 11000
              then BadRequestException ''User with given email or username already exists''
              else InternalServerErrorException (message e)),
         w\<lparr> users := users w @ [signup_document env w d],
            sendEmail_calls := sendEmail_calls w @
              [userVerificationRequest_mail (signup_document env w d)] \<rparr>)) \<and>
   (findById env w userId = Inr (Some u) \<and> \<not> isActive u \<and>
    sendEmail_error env (accountVerified_mail u) = Some e \<longrightarrow>
      updateUserVerificationStatus env w userId =
        (Inl (if instanceof_NotFoundException e \<or> instanceof_BadRequestException e then e
              else InternalServerErrorException (message e)),
         w\<lparr> users := update_first (\<lambda>x. oid x = oid u) (\<lambda>x. u\<lparr>isActive := True\<rparr>) (users w),
            sendEmail_calls := sendEmail_calls w @ [accountVerified_mail u] \<rparr>))"
  by (simp add: createNewUser_fresh verify_pending createNewUser_catch_def rethrow_catch_def)

text \<open>
  The instance of C3 with the stored account of the example, a second signup and an
  email service that rejects both mails with a plain \<^verbatim>\<open>Error\<close>.
\<close>

theorem email_failure_propagates_state_kept_witness:
  "oid (signup_document (test_env [''userVerificationRequest'', ''accountVerified''])
          alice_world (signup_input ''b'' ''b@x.com'' ''p2''))
     \<notin> set (map oid (users alice_world)) \<and>
   sendEmail_error (test_env [''userVerificationRequest'', ''accountVerified''])
       (userVerificationRequest_mail
          (signup_document (test_env [''userVerificationRequest'', ''accountVerified''])
             alice_world
             (signup_input ''b'' ''b@x.com'' ''p2'')))
     = Some (Error ''SMTP connection refused'') \<and>
   findById (test_env [''userVerificationRequest'', ''accountVerified'']) alice_world
       ''aaaaaaaaaaaaaaaaaaaaaaaa'' = Inr (Some alice) \<and>
   \<not> isActive alice \<and>
   sendEmail_error (test_env [''userVerificationRequest'', ''accountVerified''])
       (accountVerified_mail alice) = Some (Error ''SMTP connection refused'') \<and>
   fst (createNewUser (test_env [''userVerificationRequest'', ''accountVerified'']) alice_world
          (signup_input ''b'' ''b@x.com'' ''p2''))
     = Inl (InternalServerErrorException ''SMTP connection refused'') \<and>
   users (snd (createNewUser (test_env [''userVerificationRequest'', ''accountVerified''])
          alice_world
          (signup_input ''b'' ''b@x.com'' ''p2'')))
     = [alice,
        signup_document (test_env [''userVerificationRequest'', ''accountVerified''])
          alice_world
          (signup_input ''b'' ''b@x.com'' ''p2'')] \<and>
   updateUserVerificationStatus
       (test_env [''userVerificationRequest'', ''accountVerified'']) alice_world
       ''aaaaaaaaaaaaaaaaaaaaaaaa''
     = (Inl (InternalServerErrorException ''SMTP connection refused''),
        \<lparr> users = [alice\<lparr>isActive := True\<rparr>],
          sendEmail_calls = [accountVerified_mail alice] \<rparr>)"
proof -
  let ?env = "test_env [''userVerificationRequest'', ''accountVerified'']"
  let ?d = "(signup_input ''b'' ''b@x.com'' ''p2'')"
  let ?e = "Error ''SMTP connection refused''"
  have h1: "oid (signup_document ?env alice_world ?d) \<notin> set (map oid (users alice_world))"
    by (rule fresh_alice_world)
  have h2: "sendEmail_error ?env
              (userVerificationRequest_mail (signup_document ?env alice_world ?d)) = Some ?e"
    by (simp add: test_env_def userVerificationRequest_mail_def)
  have h3: "findById ?env alice_world ''aaaaaaaaaaaaaaaaaaaaaaaa'' = Inr (Some alice)"
    by (rule alice_found)
  have h4: "\<not> isActive alice" by (simp add: alice_def)
  have h5: "sendEmail_error ?env (accountVerified_mail alice) = Some ?e"
    by (simp add: test_env_def accountVerified_mail_def)
  have u: "update_first (\<lambda>x. oid x = oid alice) (\<lambda>x. alice\<lparr>isActive := True\<rparr>) (users alice_world)
           = [alice\<lparr>isActive := True\<rparr>]"
    by (simp add: alice_world_def)
  have c: "sendEmail_calls alice_world = []" "users alice_world = [alice]"
    by (simp_all add: alice_world_def)
  note t = email_failure_propagates_state_kept
             [of ?env alice_world ?d ?e "''aaaaaaaaaaaaaaaaaaaaaaaa''" alice]
  have a: "createNewUser ?env alice_world ?d =
        (Inl (InternalServerErrorException ''SMTP connection refused''),
         alice_world\<lparr> users := users alice_world @ [signup_document ?env alice_world ?d],
            sendEmail_calls := sendEmail_calls alice_world @
              [userVerificationRequest_mail (signup_document ?env alice_world ?d)] \<rparr>)"
    using t h1 h2 by simp
  have b: "updateUserVerificationStatus ?env alice_world ''aaaaaaaaaaaaaaaaaaaaaaaa'' =
        (Inl (InternalServerErrorException ''SMTP connection refused''),
         alice_world\<lparr> users := [alice\<lparr>isActive := True\<rparr>],
            sendEmail_calls := [accountVerified_mail alice] \<rparr>)"
    using t h3 h4 h5 u c by simp
  have w: "alice_world\<lparr> users := [alice\<lparr>isActive := True\<rparr>],
            sendEmail_calls := [accountVerified_mail alice] \<rparr> =
           \<lparr> users = [alice\<lparr>isActive := True\<rparr>],
             sendEmail_calls = [accountVerified_mail alice] \<rparr>"
    by (simp add: alice_world_def)
  show ?thesis
    unfolding a b w using h1 h2 h3 h4 h5 c by simp
qed

subsection \<open>getUserById\<close>

text \<open>
  Claim C4, as stated, fails: the payload of the response for the stored account of the
  example has a \<^verbatim>\<open>password\<close> field, and it holds the stored hash.
\<close>

theorem getUserById_payload_has_password:
  "getUserById (test_env []) successResponse alice_world ''aaaaaaaaaaaaaaaaaaaaaaaa'' =
     Inr \<lparr> resp_success = True,
           resp_message = ''User fetched successfully'',
           resp_statusCode = 200,
           resp_data = Some
             [ (''_id'', JObjectId (ObjectId ''aaaaaaaaaaaaaaaaaaaaaaaa'')),
               (''username'', JString ''a''),
               (''email'', JString ''a@x.com''),
               (''password'', JString ''$2b$10$salt1p''),
               (''files'', JFiles []),
               (''isActive'', JBool False),
               (''createdAt'', JNumber 1700000000) ] \<rparr>"
  by (simp add: getUserById_def getUser_cases alice_found successResponse_def toObject_def
      alice_def)

text \<open>
  Claim C4, amended. For every id that a stored account has, \<^verbatim>\<open>getUser\<close> returns the
  stored document as it is, and \<^verbatim>\<open>getUserById\<close> answers with what the response handler
  makes of that document as the payload, all fields included: the payload has a
  \<^verbatim>\<open>password\<close> field, and its value is the stored password hash.
\<close>

theorem getUserById_returns_stored_document:
  assumes "findById env w userId = Inr (Some u)"
  shows "getUser env w (ById userId) = Inr (Some u) \<and>
         getUserById env respond w userId =
           Inr (respond (Some (toObject u)) ''User fetched successfully'' 200) \<and>
         map_of (toObject u) ''password'' = Some (JString (password u))"
  using assms by (simp add: getUserById_def getUser_cases toObject_def)

text \<open>The instance of C4 with the stored account of the example.\<close>

theorem getUserById_returns_stored_document_witness:
  "findById (test_env []) alice_world ''aaaaaaaaaaaaaaaaaaaaaaaa'' = Inr (Some alice) \<and>
   getUser (test_env []) alice_world (ById ''aaaaaaaaaaaaaaaaaaaaaaaa'') = Inr (Some alice) \<and>
   getUserById (test_env []) successResponse alice_world ''aaaaaaaaaaaaaaaaaaaaaaaa'' =
     Inr (successResponse (Some (toObject alice)) ''User fetched successfully'' 200) \<and>
   map_of (toObject alice) ''password'' = Some (JString ''$2b$10$salt1p'')"
proof -
  have h: "findById (test_env []) alice_world ''aaaaaaaaaaaaaaaaaaaaaaaa'' = Inr (Some alice)"
    by (rule alice_found)
  have p: "password alice = ''$2b$10$salt1p''" by (simp add: alice_def)
  show ?thesis
    using h getUserById_returns_stored_document [OF h, of successResponse]
    unfolding p by simp
qed

subsection \<open>The files list\<close>

lemma files_kept_same: "list_all2 files_kept us us"
  by (simp add: list_all2_refl files_kept_def)

lemma files_kept_update_first:
  "(\<And>u. P u \<Longrightarrow> files_kept u (f u)) \<Longrightarrow> list_all2 files_kept us (update_first P f us)"
  by (rule list_all2_update_first) (simp_all add: files_kept_def)

text \<open>\<^verbatim>\<open>createNewUser\<close> leaves the documents that were there as they are.\<close>

lemma step_createNewUser:
  "take (length (users w)) (users (snd (createNewUser env w d))) = users w"
proof (cases "oid (signup_document env w d) \<in> set (map oid (users w))")
  case True
  then show ?thesis by (simp add: createNewUser_taken)
next
  case False
  then show ?thesis by (simp add: createNewUser_fresh)
qed

lemma step_updateUser:
  "upd_files d = None \<Longrightarrow>
   list_all2 files_kept (users w) (users (snd (updateUser env w i d)))"
  by (auto simp: updateUser_def updateUser_try_def findByIdAndUpdate_def files_kept_same
      apply_UpdateUserDto_def files_kept_def
      intro!: files_kept_update_first split: option.splits)

lemma step_updateUserFiles:
  "list_all2 files_kept (users w) (users (snd (updateUserFiles env w i f)))"
  by (auto simp: updateUserFiles_def updateUserFiles_try_def findByIdAndUpdate_def
      files_kept_same push_files_def files_kept_def
      intro!: files_kept_update_first split: option.splits)

lemma step_verify:
  "list_all2 files_kept (users w) (users (snd (updateUserVerificationStatus env w i)))"
proof (cases "findById env w i")
  case (Inl e)
  then show ?thesis
    by (simp add: updateUserVerificationStatus_def updateUserVerificationStatus_try_def
        files_kept_same)
next
  case (Inr r)
  show ?thesis
  proof (cases r)
    case None
    with Inr show ?thesis
      by (simp add: updateUserVerificationStatus_def updateUserVerificationStatus_try_def
          files_kept_same)
  next
    case (Some u)
    show ?thesis
    proof (cases "isActive u")
      case True
      with Inr Some show ?thesis by (simp add: verify_active files_kept_same)
    next
      case False
      from Inr Some obtain j where "find (\<lambda>x. oid x = j) (users w) = Some u"
        by (auto simp: findById_def split: option.splits)
      moreover from this have "oid u = j" by (rule find_oid)
      ultimately have f: "find (\<lambda>x. oid x = oid u) (users w) = Some u" by simp
      have e: "update_first (\<lambda>x. oid x = oid u) (\<lambda>x. u\<lparr>isActive := True\<rparr>) (users w) =
               update_first (\<lambda>x. oid x = oid u) (\<lambda>x. x\<lparr>isActive := True\<rparr>) (users w)"
        by (rule update_first_found [OF f]) simp
      from Inr Some False show ?thesis
        by (simp add: verify_pending e files_kept_def files_kept_update_first)
    qed
  qed
qed

lemma step_files_kept:
  assumes "\<not> sets_files op"
  shows "list_all2 files_kept (users w) (take (length (users w)) (users (step env w op)))"
proof (cases op)
  case (CreateNewUser d)
  then show ?thesis by (simp add: step_createNewUser files_kept_same)
next
  case (UpdateUser i d)
  have "list_all2 files_kept (users w) (users (step env w op))"
    using UpdateUser assms by (simp add: step_updateUser)
  then show ?thesis by (simp add: list_all2_lengthD)
next
  case (UpdateUserFiles i f)
  have "list_all2 files_kept (users w) (users (step env w op))"
    using UpdateUserFiles by (simp add: step_updateUserFiles)
  then show ?thesis by (simp add: list_all2_lengthD)
next
  case (UpdateUserVerificationStatus i)
  have "list_all2 files_kept (users w) (users (step env w op))"
    using UpdateUserVerificationStatus by (simp add: step_verify)
  then show ?thesis by (simp add: list_all2_lengthD)
qed (simp_all add: files_kept_same)

lemma updateUserFiles_found:
  assumes "ObjectId_parse env userId = Some i"
      and "find (\<lambda>u. oid u = i) (users w) = Some u"
  shows "updateUserFiles env w userId f =
           (Inr (), w\<lparr>users := update_first (\<lambda>x. oid x = i) (push_files f) (users w)\<rparr>)"
  using assms
  by (simp add: updateUserFiles_def updateUserFiles_try_def ObjectId_isValid_def
      findByIdAndUpdate_def)

lemma updateUserFiles_seq_found:
  assumes "ObjectId_parse env userId = Some i"
  shows "find (\<lambda>u. oid u = i) (users w) = Some u \<Longrightarrow>
         updateUserFiles_seq env w userId fs =
           (replicate (length fs) (Inr ()),
            w\<lparr>users := update_first (\<lambda>x. oid x = i) (\<lambda>x. x\<lparr>files := files x @ fs\<rparr>) (users w)\<rparr>)"
proof (induction fs arbitrary: w u)
  case Nil
  then show ?case by (simp add: update_first_id)
next
  case (Cons f fs)
  let ?w1 = "w\<lparr>users := update_first (\<lambda>x. oid x = i) (push_files f) (users w)\<rparr>"
  have p: "\<And>x. oid x = i \<Longrightarrow> oid (push_files f x) = i"
    by (simp add: push_files_def)
  have "find (\<lambda>u. oid u = i) (users ?w1) = Some (push_files f u)"
    using Cons.prems by (simp add: find_update_first p)
  from Cons.IH [OF this] show ?case
    using Cons.prems
    by (simp add: updateUserFiles_found [OF assms Cons.prems] update_first_twice p
        push_files_def)
qed

text \<open>
  Claim C8, as stated, fails in its second half: \<^verbatim>\<open>updateUser\<close> passes its DTO to
  \<^verbatim>\<open>findByIdAndUpdate\<close> as it is, so a DTO that carries a files list replaces the stored
  one. Here the account has two files and the DTO carries the second alone: the first is
  removed.
\<close>

theorem updateUser_replaces_files:
  "updateUser (test_env [])
     \<lparr> users = [alice\<lparr>files := [ [(''Location'', ''s3://bucket/one'')],
                                  [(''Location'', ''s3://bucket/two'')] ]\<rparr>],
       sendEmail_calls = [] \<rparr>
     ''aaaaaaaaaaaaaaaaaaaaaaaa'' (updateDto_files [ [(''Location'', ''s3://bucket/two'')] ])
   = (Inr (alice\<lparr>files := [ [(''Location'', ''s3://bucket/two'')] ]\<rparr>),
      \<lparr> users = [alice\<lparr>files := [ [(''Location'', ''s3://bucket/two'')] ]\<rparr>],
        sendEmail_calls = [] \<rparr>) \<and>
   \<not> list_all2 files_kept
       [alice\<lparr>files := [ [(''Location'', ''s3://bucket/one'')],
                          [(''Location'', ''s3://bucket/two'')] ]\<rparr>]
       (take 1 (users (step (test_env [])
          \<lparr> users = [alice\<lparr>files := [ [(''Location'', ''s3://bucket/one'')],
                                       [(''Location'', ''s3://bucket/two'')] ]\<rparr>],
            sendEmail_calls = [] \<rparr>
          (UpdateUser ''aaaaaaaaaaaaaaaaaaaaaaaa''
             (updateDto_files [ [(''Location'', ''s3://bucket/two'')] ])))))"
  by (simp add: updateUser_def updateUser_try_def ObjectId_isValid_def findByIdAndUpdate_def
      apply_UpdateUserDto_def updateDto_files_def files_kept_def test_env_def alice_def)

text \<open>
  Claim C8, amended. Let the id be well-formed and that of a stored account \<open>u\<close>. A
  sequence of \<^verbatim>\<open>updateUserFiles\<close> calls on it with the items \<open>fs\<close> succeeds call by call,
  and afterwards the account's files are its files from before followed by the items
  \<open>fs\<close>, one per call and in call order; every other field, every other document and the
  list of mails are as before. And no operation of the core other than an \<^verbatim>\<open>updateUser\<close>
  whose DTO carries a files list removes or reorders files: after any one such operation,
  every document that was in the collection is still at its place, with its \<^verbatim>\<open>_id\<close>, and
  its files from before are the beginning of its files now.
\<close>

theorem files_only_appended:
  "(ObjectId_parse env userId = Some i \<and> find (\<lambda>x. oid x = i) (users w) = Some u \<longrightarrow>
      (case updateUserFiles_seq env w userId fs of
         (rs, w') \<Rightarrow>
           rs = replicate (length fs) (Inr ()) \<and>
           find (\<lambda>x. oid x = i) (users w') = Some (u\<lparr>files := files u @ fs\<rparr>) \<and>
           users w' =
             update_first (\<lambda>x. oid x = i) (\<lambda>x. x\<lparr>files := files x @ fs\<rparr>) (users w) \<and>
           sendEmail_calls w' = sendEmail_calls w)) \<and>
   (\<not> sets_files op \<longrightarrow>
      list_all2 files_kept (users w) (take (length (users w)) (users (step env w op))))"
  by (auto simp: updateUserFiles_seq_found find_update_first step_files_kept)

text \<open>
  The instance of C8 with the stored account of the example: two uploads in a row, and
  one further upload as the single operation.
\<close>

theorem files_only_appended_witness:
  "ObjectId_parse (test_env []) ''aaaaaaaaaaaaaaaaaaaaaaaa''
     = Some (ObjectId ''aaaaaaaaaaaaaaaaaaaaaaaa'') \<and>
   find (\<lambda>x. oid x = ObjectId ''aaaaaaaaaaaaaaaaaaaaaaaa'') (users alice_world) = Some alice \<and>
   \<not> sets_files
       (UpdateUserFiles ''aaaaaaaaaaaaaaaaaaaaaaaa'' [(''Location'', ''s3://bucket/one'')]) \<and>
   updateUserFiles_seq (test_env []) alice_world ''aaaaaaaaaaaaaaaaaaaaaaaa''
       [ [(''Location'', ''s3://bucket/one'')], [(''Location'', ''s3://bucket/two'')] ]
     = ([Inr (), Inr ()],
        \<lparr> users = [alice\<lparr>files :=
                     [ [(''Location'', ''s3://bucket/one'')],
                       [(''Location'', ''s3://bucket/two'')] ]\<rparr>],
          sendEmail_calls = [] \<rparr>) \<and>
   list_all2 files_kept (users alice_world)
     (take (length (users alice_world))
        (users (step (test_env []) alice_world
           (UpdateUserFiles ''aaaaaaaaaaaaaaaaaaaaaaaa'' [(''Location'', ''s3://bucket/one'')]))))"
proof -
  let ?id = "''aaaaaaaaaaaaaaaaaaaaaaaa''"
  let ?fs = "[ [(''Location'', ''s3://bucket/one'')], [(''Location'', ''s3://bucket/two'')] ]"
  let ?op = "UpdateUserFiles ?id [(''Location'', ''s3://bucket/one'')]"
  have h1: "ObjectId_parse (test_env []) ?id = Some (ObjectId ?id)"
    by (simp add: test_env_def)
  have h2: "find (\<lambda>x. oid x = ObjectId ?id) (users alice_world) = Some alice"
    by (simp add: alice_world_def alice_def)
  have h3: "\<not> sets_files ?op"
    by simp
  have u: "update_first (\<lambda>x. oid x = ObjectId ?id) (\<lambda>x. x\<lparr>files := files x @ ?fs\<rparr>)
             (users alice_world) = [alice\<lparr>files := ?fs\<rparr>]"
    by (simp add: alice_world_def alice_def)
  have c: "sendEmail_calls alice_world = []" by (simp add: alice_world_def)
  have r: "replicate (length ?fs) (Inr () :: exn + unit) = [Inr (), Inr ()]"
    by simp
  note t = files_only_appended [of "test_env []" ?id "ObjectId ?id" alice_world alice ?fs ?op]
  have a: "updateUserFiles_seq (test_env []) alice_world ?id ?fs =
             ([Inr (), Inr ()], \<lparr> users = [alice\<lparr>files := ?fs\<rparr>], sendEmail_calls = [] \<rparr>)"
    using t h1 h2 unfolding u c r by (auto split: prod.splits)
  show ?thesis
    using t h1 h2 h3 a by simp
qed

end
